theory Spec2Isabelle
  imports Main
begin

section \<open>Resource Prompt (recommendations/prompts/resource-prompt/index.jsx)\<close>

text \<open>
  The component talks to its surroundings only through callbacks: the two dispatching
  props, the analytics singleton and an assignment to \<^verbatim>\<open>window.location.href\<close>.
  Every such call is an element of a trace, in the order in which the code makes it.
  Step slugs, routes and event names are JavaScript strings.
\<close>

datatype rp_effect =
    UpdateRecommendationsStep string
  | AddViewedRecommendation string
  | RecordEvent string "(string \<times> string) list"
  | SetLocationHref string
  | FollowHref string

text \<open>
  The props the modelled parts of \<^verbatim>\<open>ResourcePromptComponent\<close> read. The purely
  presentational ones (question, illustration, progress value, ...) take no part in any
  command the component issues and are left out.

  The \<^verbatim>\<open>description\<close> prop is a string that goes through
  \<^verbatim>\<open>createInterpolateElement\<close> of the element library, which puts a copy of the
  \<^verbatim>\<open>ExternalLink\<close> element in the place of every \<^verbatim>\<open>ExternalLink\<close> tag of
  the string. The library is not code of the component, so the prop is taken as the
  number of such tags it holds: none, one or several.
\<close>

record rp_props =
  descriptionExternalLinkTags :: nat
  descriptionLink :: string
  nextRoute :: string
  ctaLink :: string
  stepSlug :: string
  stateStepSlug :: string
  updatingStep :: bool
  summaryViewed :: bool

text \<open>
  The body of the \<^verbatim>\<open>useEffect\<close> hook (lines 59-66). The second test repeats the
  equality of the slugs, as the source does.
\<close>

definition stepEffect :: "string \<Rightarrow> string \<Rightarrow> bool \<Rightarrow> rp_effect list" where
  "stepEffect slug stateSlug updating =
     (if slug \<noteq> stateSlug then [UpdateRecommendationsStep slug]
      else if slug = stateSlug \<and> \<not> updating then [AddViewedRecommendation slug]
      else [])"

text \<open>The four click handlers (lines 75-99), each the trace of one invocation.\<close>

definition onExternalLinkClick :: "string \<Rightarrow> rp_effect list" where
  "onExternalLinkClick slug =
     [RecordEvent ''jetpack_recommended_resource_learn_more_click'' [(''feature'', slug)]]"

definition onResourceLinkClick :: "string \<Rightarrow> string \<Rightarrow> rp_effect list" where
  "onResourceLinkClick slug route =
     [RecordEvent ''jetpack_recommended_resource_read_click'' [(''feature'', slug)],
      SetLocationHref route]"

definition onResourceSkipClick :: "string \<Rightarrow> rp_effect list" where
  "onResourceSkipClick slug =
     [RecordEvent ''jetpack_recommended_resource_skip_click'' [(''feature'', slug)]]"

definition onBackToSummaryClick :: "string \<Rightarrow> rp_effect list" where
  "onBackToSummaryClick slug =
     [RecordEvent ''jetpack_recommended_resource_back_to_summary_click'' [(''feature'', slug)]]"

text \<open>
  The anchors of the rendered element that carry a handler: one copy of the
  \<^verbatim>\<open>ExternalLink\<close> handed to the interpolation for every tag of the description
  (lines 108-111), the call-to-action link, the "Read Later" link and, once the summary
  has been seen, the "View Summary" link.
\<close>

record anchor =
  href :: string
  onClick :: "rp_effect list"

record rp_view =
  descriptionExternalLinks :: "anchor list"
  ctaExternalLink :: anchor
  readLater :: anchor
  viewSummary :: "anchor option"

definition ResourcePromptComponent :: "rp_props \<Rightarrow> rp_view" where
  "ResourcePromptComponent p =
     \<lparr> descriptionExternalLinks =
         replicate (descriptionExternalLinkTags p)
           \<lparr> href = descriptionLink p, onClick = onExternalLinkClick (stepSlug p) \<rparr>,
       ctaExternalLink =
         \<lparr> href = ctaLink p, onClick = onResourceLinkClick (stepSlug p) (nextRoute p) \<rparr>,
       readLater =
         \<lparr> href = nextRoute p, onClick = onResourceSkipClick (stepSlug p) \<rparr>,
       viewSummary =
         (if summaryViewed p
          then Some \<lparr> href = ''#/recommendations/summary'',
                      onClick = onBackToSummaryClick (stepSlug p) \<rparr>
          else None) \<rparr>"

definition anchors :: "rp_view \<Rightarrow> anchor list" where
  "anchors v =
     descriptionExternalLinks v @ [ctaExternalLink v, readLater v] @
     (case viewSummary v of None \<Rightarrow> [] | Some a \<Rightarrow> [a])"

text \<open>
  Modelled from the spec: the default action of a click is not code of the component.
  The spec has each interaction emit its event "before performing their default action
  (e.g., navigating to an external link)"; no handler cancels the event, so a click runs
  the anchor's handler and then follows its \<^verbatim>\<open>href\<close>.
\<close>

definition click :: "anchor \<Rightarrow> rp_effect list" where
  "click a = onClick a @ [FollowHref (href a)]"

fun isRecordEvent :: "rp_effect \<Rightarrow> bool" where
  "isRecordEvent (RecordEvent _ _) = True"
| "isRecordEvent _ = False"

fun eventFeature :: "rp_effect \<Rightarrow> string option" where
  "eventFeature (RecordEvent _ meta) = map_of meta ''feature''"
| "eventFeature _ = None"


section \<open>AI Assistant control (extensions/blocks/ai-assistant/ai-control.js)\<close>

text \<open>
  The callbacks the component receives as props are its commands; a handler is the list
  of the commands one invocation issues, in order. \<^verbatim>\<open>PreventDefault\<close> is the call
  on the keyboard event. The mode \<^verbatim>\<open>aiType\<close> is a JavaScript string that the code
  compares with \<^verbatim>\<open>'text'\<close> and \<^verbatim>\<open>'image'\<close>; the flags are booleans; a
  \<^verbatim>\<open>content\<close> string is falsy exactly when it is empty. The translation helper
  \<^verbatim>\<open>__\<close> is taken as the identity on its first argument. The click event that the
  framework hands to a callback used directly as a handler is not part of the command.
\<close>

datatype command =
    GetSuggestionFromOpenAI string
  | HandleAcceptContent
  | HandleGetSuggestion
  | SetAiType string
  | SetUserPrompt string
  | PreventDefault

datatype icon = arrowRight_icon | check_icon | image_icon | pencil_icon | update_icon

text \<open>
  A toolbar button has an icon, a click handler and a label (its child); a dropdown menu
  has a label and its entries, each a title with a click handler.
\<close>

datatype control =
    ToolbarButton icon "command list" string
  | ToolbarDropdownMenu string "(string \<times> command list) list"

datatype toolbar_group = ToolbarGroup "control list"

datatype block_controls = BlockControls "toolbar_group list"

record key_event =
  key :: string
  shiftKey :: bool

record ai_props =
  aiType :: string
  animationDone :: bool
  content :: string
  contentIsLoaded :: bool
  isWaitingState :: bool
  loadingImages :: bool
  placeholder :: string
  showRetry :: bool

definition handleInputEnter :: "key_event \<Rightarrow> command list" where
  "handleInputEnter event =
     (if key event = ''Enter'' \<and> \<not> shiftKey event
      then [PreventDefault, HandleGetSuggestion]
      else [])"

definition toggleAIType :: "string \<Rightarrow> command list" where
  "toggleAIType ty = (if ty = ''text'' then [SetAiType ''image''] else [SetAiType ''text''])"

text \<open>
  \<^verbatim>\<open>ToolbarControls\<close> (lines 84-154). A JSX child \<^verbatim>\<open>cond && element\<close> whose
  condition fails renders nothing, so it contributes the empty list.
\<close>

definition ToolbarControls ::
  "string \<Rightarrow> bool \<Rightarrow> bool \<Rightarrow> bool \<Rightarrow> command list \<Rightarrow> block_controls" where
  "ToolbarControls ty animDone loaded retry toggle =
     BlockControls (
       (if ty = ''text'' then
          [ToolbarGroup (
             (if \<not> retry \<and> loaded \<and> animDone
              then [ToolbarButton check_icon [HandleAcceptContent] ''Done''] else []) @
             (if \<not> retry \<and> \<not> loaded
              then [ToolbarButton pencil_icon [GetSuggestionFromOpenAI ''continue'']
                      ''Continue writing''] else []) @
             (if \<not> retry \<and> \<not> loaded
              then [ToolbarDropdownMenu ''More''
                      [(''Summarize'', [GetSuggestionFromOpenAI ''summarize'']),
                       (''Write a summary based on title'',
                          [GetSuggestionFromOpenAI ''titleSummary'']),
                       (''Expand on preceding content'',
                          [GetSuggestionFromOpenAI ''continue''])]] else []) @
             (if retry
              then [ToolbarButton update_icon [HandleGetSuggestion] ''Retry''] else []))]
        else []) @
       (if \<not> retry \<and> \<not> loaded then
          [ToolbarGroup (
             (if ty = ''text''
              then [ToolbarButton image_icon toggle ''Ask AI for an image''] else []) @
             (if ty = ''image''
              then [ToolbarButton pencil_icon toggle ''Ask AI to write''] else []))]
        else []))"

text \<open>What \<^verbatim>\<open>AIControl\<close> renders (lines 44-79).\<close>

record ai_view =
  toolbar :: "block_controls option"
  loading :: bool
  textareaOnChange :: "string \<Rightarrow> command list"
  textareaOnKeyPress :: "key_event \<Rightarrow> command list"
  textareaPlaceholder :: string
  buttonOnClick :: "command list"
  buttonDisabled :: bool
  buttonLabel :: string
  buttonIcon :: icon

definition AIControl :: "ai_props \<Rightarrow> ai_view" where
  "AIControl p =
     \<lparr> toolbar =
         (if \<not> isWaitingState p
          then Some (ToolbarControls (aiType p) (animationDone p) (contentIsLoaded p)
                       (showRetry p) (toggleAIType (aiType p)))
          else None),
       loading = ((content p = [] \<and> isWaitingState p) \<or> loadingImages p),
       textareaOnChange = (\<lambda>v. [SetUserPrompt v]),
       textareaOnKeyPress = handleInputEnter,
       textareaPlaceholder = (if isWaitingState p then ''AI writing'' else placeholder p),
       buttonOnClick = [HandleGetSuggestion],
       buttonDisabled = isWaitingState p,
       buttonLabel = ''Do some magic!'',
       buttonIcon = arrowRight_icon \<rparr>"

text \<open>The controls of a rendered toolbar, in document order, and what they carry.\<close>

fun groupControls :: "toolbar_group \<Rightarrow> control list" where
  "groupControls (ToolbarGroup cs) = cs"

fun renderedControls :: "block_controls \<Rightarrow> control list" where
  "renderedControls (BlockControls gs) = concat (map groupControls gs)"

fun controlCommands :: "control \<Rightarrow> command list" where
  "controlCommands (ToolbarButton _ cs _) = cs"
| "controlCommands (ToolbarDropdownMenu _ entries) = concat (map snd entries)"

fun controlLabel :: "control \<Rightarrow> string" where
  "controlLabel (ToolbarButton _ _ l) = l"
| "controlLabel (ToolbarDropdownMenu l _) = l"

fun isSetAiType :: "command \<Rightarrow> bool" where
  "isSetAiType (SetAiType _) = True"
| "isSetAiType _ = False"

fun isDropdown :: "control \<Rightarrow> bool" where
  "isDropdown (ToolbarDropdownMenu _ _) = True"
| "isDropdown _ = False"

definition setsMode :: "control \<Rightarrow> bool" where
  "setsMode c = (filter isSetAiType (controlCommands c) \<noteq> [])"

definition acceptsContent :: "control \<Rightarrow> bool" where
  "acceptsContent c = (HandleAcceptContent \<in> set (controlCommands c) \<or> controlLabel c = ''Done'')"

text \<open>
  Modelled from the spec: \<^verbatim>\<open>setAiType\<close> is a prop whose implementation lies in the
  parent block, not in this file. The spec lists it as the "set mode" command and has
  the toggle flip the mode "with no intermediate state": the command makes its argument
  the current mode, and the other commands leave the mode alone.
\<close>

fun setMode :: "command \<Rightarrow> string \<Rightarrow> string" where
  "setMode (SetAiType m) _ = m"
| "setMode _ cur = cur"

definition toggled :: "string \<Rightarrow> string" where
  "toggled ty = fold setMode (toggleAIType ty) ty"


section \<open>Properties of the Resource Prompt\<close>

text \<open>
  Claim C1. For every triple of step slug, tracked slug and in-flight flag, one evaluation
  of the mount/update effect issues the step-change command, with the step slug, exactly
  when the two slugs differ; it issues the viewed command, with the step slug, exactly
  when they agree and no update is in flight; it issues nothing in the remaining case;
  and it never issues more than one command.
\<close>

theorem stepEffect_exactly_one:
  "(stepEffect slug stateSlug updating = [UpdateRecommendationsStep slug]) = (slug \<noteq> stateSlug)
   \<and> (stepEffect slug stateSlug updating = [AddViewedRecommendation slug])
       = (slug = stateSlug \<and> \<not> updating)
   \<and> (stepEffect slug stateSlug updating = []) = (slug = stateSlug \<and> updating)
   \<and> length (stepEffect slug stateSlug updating) \<le> 1"
  by (simp add: stepEffect_def)

lemma handler_shape:
  "a \<in> set (anchors (ResourcePromptComponent p)) \<Longrightarrow>
   \<exists>name rest. onClick a = RecordEvent name [(''feature'', stepSlug p)] # rest
      \<and> filter isRecordEvent rest = []"
  by (auto simp: anchors_def ResourcePromptComponent_def onExternalLinkClick_def
      onResourceLinkClick_def onResourceSkipClick_def onBackToSummaryClick_def
      split: if_splits)

lemma anchors_handlers:
  "map onClick (anchors (ResourcePromptComponent p)) =
     replicate (descriptionExternalLinkTags p) (onExternalLinkClick (stepSlug p)) @
     [onResourceLinkClick (stepSlug p) (nextRoute p), onResourceSkipClick (stepSlug p)] @
     (if summaryViewed p then [onBackToSummaryClick (stepSlug p)] else [])"
  by (simp add: anchors_def ResourcePromptComponent_def)

text \<open>
  Claim C4. Each of the four click handlers (external link, resource link, skip, back to
  summary) records exactly one analytics event per invocation, whose \<open>feature\<close> metadata
  is the current step slug, and the event is the first thing the handler does. A click on
  any anchor the component renders, however many links the description holds, therefore
  starts with that one event, contains no other event, and ends with the anchor's default
  action; for the resource link the event precedes the assignment of \<open>nextRoute\<close> to the
  location, which itself precedes the default action. The rendered anchors carry these
  four handlers and no other: the external-link handler once per link of the description,
  then the resource-link and skip handlers, then the back-to-summary handler when the
  summary has been seen.
\<close>

theorem click_handlers_record_one_event_first:
  "(\<forall>h \<in> set [onExternalLinkClick slug, onResourceLinkClick slug route,
                onResourceSkipClick slug, onBackToSummaryClick slug].
      filter isRecordEvent h = [hd h] \<and> eventFeature (hd h) = Some slug)
   \<and> (\<forall>a \<in> set (anchors (ResourcePromptComponent p)).
        \<exists>name rest. click a = RecordEvent name [(''feature'', stepSlug p)] # rest
           \<and> filter isRecordEvent rest = [] \<and> last rest = FollowHref (href a))
   \<and> click (ctaExternalLink (ResourcePromptComponent p)) =
       [RecordEvent ''jetpack_recommended_resource_read_click'' [(''feature'', stepSlug p)],
        SetLocationHref (nextRoute p), FollowHref (ctaLink p)]
   \<and> map onClick (anchors (ResourcePromptComponent p)) =
       replicate (descriptionExternalLinkTags p) (onExternalLinkClick (stepSlug p)) @
       [onResourceLinkClick (stepSlug p) (nextRoute p), onResourceSkipClick (stepSlug p)] @
       (if summaryViewed p then [onBackToSummaryClick (stepSlug p)] else [])"
proof (intro conjI)
  show "\<forall>h \<in> set [onExternalLinkClick slug, onResourceLinkClick slug route,
                onResourceSkipClick slug, onBackToSummaryClick slug].
      filter isRecordEvent h = [hd h] \<and> eventFeature (hd h) = Some slug"
    by (simp add: onExternalLinkClick_def onResourceLinkClick_def onResourceSkipClick_def
        onBackToSummaryClick_def)
next
  show "\<forall>a \<in> set (anchors (ResourcePromptComponent p)).
        \<exists>name rest. click a = RecordEvent name [(''feature'', stepSlug p)] # rest
           \<and> filter isRecordEvent rest = [] \<and> last rest = FollowHref (href a)"
  proof
    fix a assume "a \<in> set (anchors (ResourcePromptComponent p))"
    from handler_shape [OF this] obtain name rest where
      h: "onClick a = RecordEvent name [(''feature'', stepSlug p)] # rest"
         "filter isRecordEvent rest = []" by blast
    have "click a = RecordEvent name [(''feature'', stepSlug p)] # (rest @ [FollowHref (href a)])"
      using h by (simp add: click_def)
    moreover have "filter isRecordEvent (rest @ [FollowHref (href a)]) = []"
      using h by simp
    moreover have "last (rest @ [FollowHref (href a)]) = FollowHref (href a)" by simp
    ultimately show "\<exists>name rest. click a = RecordEvent name [(''feature'', stepSlug p)] # rest
           \<and> filter isRecordEvent rest = [] \<and> last rest = FollowHref (href a)"
      by blast
  qed
next
  show "click (ctaExternalLink (ResourcePromptComponent p)) =
       [RecordEvent ''jetpack_recommended_resource_read_click'' [(''feature'', stepSlug p)],
        SetLocationHref (nextRoute p), FollowHref (ctaLink p)]"
    by (simp add: click_def ResourcePromptComponent_def onResourceLinkClick_def)
next
  show "map onClick (anchors (ResourcePromptComponent p)) =
       replicate (descriptionExternalLinkTags p) (onExternalLinkClick (stepSlug p)) @
       [onResourceLinkClick (stepSlug p) (nextRoute p), onResourceSkipClick (stepSlug p)] @
       (if summaryViewed p then [onBackToSummaryClick (stepSlug p)] else [])"
    by (rule anchors_handlers)
qed

text \<open>
  The theorem at the step \<open>agency\<close>, with two links in the description and the summary
  already seen: the clicks on all five anchors, and the back-to-summary handler.
\<close>

theorem click_handlers_record_one_event_first_witness:
  "map click (anchors (ResourcePromptComponent
      \<lparr> descriptionExternalLinkTags = 2, descriptionLink = ''https://d'',
        nextRoute = ''#/next'', ctaLink = ''https://c'',
        stepSlug = ''agency'', stateStepSlug = ''agency'', updatingStep = False,
        summaryViewed = True \<rparr>)) =
     [[RecordEvent ''jetpack_recommended_resource_learn_more_click'' [(''feature'', ''agency'')],
       FollowHref ''https://d''],
      [RecordEvent ''jetpack_recommended_resource_learn_more_click'' [(''feature'', ''agency'')],
       FollowHref ''https://d''],
      [RecordEvent ''jetpack_recommended_resource_read_click'' [(''feature'', ''agency'')],
       SetLocationHref ''#/next'', FollowHref ''https://c''],
      [RecordEvent ''jetpack_recommended_resource_skip_click'' [(''feature'', ''agency'')],
       FollowHref ''#/next''],
      [RecordEvent ''jetpack_recommended_resource_back_to_summary_click''
         [(''feature'', ''agency'')],
       FollowHref ''#/recommendations/summary'']]
   \<and> filter isRecordEvent (onBackToSummaryClick ''agency'') = [hd (onBackToSummaryClick ''agency'')]
   \<and> eventFeature (hd (onBackToSummaryClick ''agency'')) = Some ''agency''"
  using click_handlers_record_one_event_first
    [of "''agency''" "''#/next''"
        "\<lparr> descriptionExternalLinkTags = 2, descriptionLink = ''https://d'',
           nextRoute = ''#/next'', ctaLink = ''https://c'',
           stepSlug = ''agency'', stateStepSlug = ''agency'', updatingStep = False,
           summaryViewed = True \<rparr>"]
  by (simp add: anchors_def ResourcePromptComponent_def click_def onExternalLinkClick_def
      onResourceLinkClick_def onResourceSkipClick_def onBackToSummaryClick_def
      numeral_2_eq_2)


section \<open>Properties of the AI Assistant toolbar\<close>

subsection \<open>Retry\<close>

text \<open>
  Claim C2, as amended. When \<open>showRetry\<close> is true, whatever the other flags are, no
  control other than "Retry" is rendered; the "Retry" control, wired to the
  get-suggestion handler, is rendered exactly when the mode is \<open>text\<close>. In any other
  mode the toolbar then holds no control at all.
\<close>

theorem retry_only_in_text_mode:
  "renderedControls (ToolbarControls ty animDone loaded True toggle) =
     (if ty = ''text'' then [ToolbarButton update_icon [HandleGetSuggestion] ''Retry''] else [])"
  by (simp add: ToolbarControls_def)

text \<open>
  Claim C2 as stated asks for the "Retry" control in both modes. In image mode with
  \<open>showRetry\<close> true the toolbar is empty: the control sits in the group that is rendered
  for the text mode only.
\<close>

theorem retry_missing_in_image_mode:
  "renderedControls (ToolbarControls ''image'' False False True (toggleAIType ''image'')) = []
   \<and> ToolbarButton update_icon [HandleGetSuggestion] ''Retry''
       \<notin> set (renderedControls (ToolbarControls ''image'' False False True (toggleAIType ''image'')))"
  by (simp add: ToolbarControls_def)

subsection \<open>The waiting state\<close>

text \<open>
  Claim C3, as amended. When \<open>isWaitingState\<close> is true the toolbar controls are absent,
  and the loading indicator is present exactly when the content is empty or
  \<open>loadingImages\<close> is true.
\<close>

theorem waiting_hides_toolbar:
  "isWaitingState p \<Longrightarrow>
     toolbar (AIControl p) = None
     \<and> loading (AIControl p) = (content p = [] \<or> loadingImages p)"
  by (simp add: AIControl_def)

theorem waiting_hides_toolbar_witness:
  "toolbar (AIControl \<lparr> aiType = ''text'', animationDone = False, content = [],
       contentIsLoaded = False, isWaitingState = True, loadingImages = False,
       placeholder = ''Ask'', showRetry = False \<rparr>) = None
   \<and> loading (AIControl \<lparr> aiType = ''text'', animationDone = False, content = [],
       contentIsLoaded = False, isWaitingState = True, loadingImages = False,
       placeholder = ''Ask'', showRetry = False \<rparr>)"
  using waiting_hides_toolbar [of "\<lparr> aiType = ''text'', animationDone = False, content = [],
       contentIsLoaded = False, isWaitingState = True, loadingImages = False,
       placeholder = ''Ask'', showRetry = False \<rparr>"]
  by simp

text \<open>
  Claim C3 as stated promises the loading indicator for every waiting state. With some
  content already present and no images loading, the component waits without it.
\<close>

theorem waiting_without_loading_indicator:
  "isWaitingState \<lparr> aiType = ''text'', animationDone = False, content = ''Draft'',
       contentIsLoaded = False, isWaitingState = True, loadingImages = False,
       placeholder = ''Ask'', showRetry = False \<rparr>
   \<and> \<not> loading (AIControl \<lparr> aiType = ''text'', animationDone = False, content = ''Draft'',
       contentIsLoaded = False, isWaitingState = True, loadingImages = False,
       placeholder = ''Ask'', showRetry = False \<rparr>)"
  by (simp add: AIControl_def)

subsection \<open>The mode toggle\<close>

lemma toggled_text: "toggled ''text'' = ''image''"
  by (simp add: toggled_def toggleAIType_def)

lemma toggled_image: "toggled ''image'' = ''text''"
  by (simp add: toggled_def toggleAIType_def)

lemma toggled_twice:
  "ty \<in> {''text'', ''image''} \<Longrightarrow> toggled (toggled ty) = ty"
  by (auto simp: toggled_text toggled_image)

lemma toggled_even:
  "ty \<in> {''text'', ''image''} \<Longrightarrow> (toggled ^^ (2 * n)) ty = ty"
proof (induction n)
  case 0
  show ?case by simp
next
  case (Suc n)
  have "(toggled ^^ (2 * Suc n)) ty = toggled (toggled ((toggled ^^ (2 * n)) ty))"
    by simp
  also have "\<dots> = toggled (toggled ty)" using Suc by simp
  also have "\<dots> = ty" using Suc.prems by (rule toggled_twice)
  finally show ?case .
qed

text \<open>
  Claim C5. For a mode in \<open>{text, image}\<close>, one application of the toggle issues a single
  set-mode command, for the other mode, so that \<open>text\<close> becomes \<open>image\<close> and \<open>image\<close>
  becomes \<open>text\<close> with nothing in between; two applications give the original mode back,
  and so does every even number of applications (an odd number gives the other mode).
\<close>

theorem toggle_involution:
  "ty \<in> {''text'', ''image''} \<Longrightarrow>
     toggleAIType ty = [SetAiType (if ty = ''text'' then ''image'' else ''text'')]
     \<and> toggled ty = (if ty = ''text'' then ''image'' else ''text'')
     \<and> toggled (toggled ty) = ty
     \<and> (toggled ^^ (2 * n)) ty = ty
     \<and> (toggled ^^ (2 * n + 1)) ty = toggled ty"
proof -
  assume a: "ty \<in> {''text'', ''image''}"
  have 1: "toggleAIType ty = [SetAiType (if ty = ''text'' then ''image'' else ''text'')]"
    by (simp add: toggleAIType_def)
  have 2: "toggled ty = (if ty = ''text'' then ''image'' else ''text'')"
    using a by (auto simp: toggled_text toggled_image)
  have 3: "toggled (toggled ty) = ty" using a by (rule toggled_twice)
  have 4: "(toggled ^^ (2 * n)) ty = ty" using a by (rule toggled_even)
  have 5: "(toggled ^^ (2 * n + 1)) ty = toggled ty" using 4 by simp
  from 1 2 3 4 5 show ?thesis by blast
qed

text \<open>Six and seven toggles from the image mode.\<close>

theorem toggle_involution_witness:
  "toggleAIType ''image'' = [SetAiType ''text'']
   \<and> toggled ''image'' = ''text''
   \<and> (toggled ^^ 6) ''image'' = ''image''
   \<and> (toggled ^^ 7) ''image'' = ''text''"
  using toggle_involution [of "''image''" 3]
  by simp

text \<open>
  Claim C8. For a mode in \<open>{text, image}\<close>, with the toggle handler the component passes
  down, a control that sets the mode is rendered if and only if \<open>showRetry\<close> and
  \<open>contentIsLoaded\<close> are both false. There is then exactly one; it carries the icon and
  label of the other mode (the image icon and "Ask AI for an image" in text mode, the
  pencil icon and "Ask AI to write" in image mode), and a click issues the set-mode
  command with the other mode.
\<close>

theorem mode_toggle_control:
  "ty \<in> {''text'', ''image''} \<Longrightarrow>
     filter setsMode
       (renderedControls (ToolbarControls ty animDone loaded retry (toggleAIType ty)))
       = (if \<not> retry \<and> \<not> loaded
          then [ToolbarButton (if ty = ''text'' then image_icon else pencil_icon)
                  [SetAiType (if ty = ''text'' then ''image'' else ''text'')]
                  (if ty = ''text'' then ''Ask AI for an image'' else ''Ask AI to write'')]
          else [])"
  by (auto simp: ToolbarControls_def setsMode_def toggleAIType_def)

theorem mode_toggle_control_witness:
  "filter setsMode
     (renderedControls (ToolbarControls ''image'' False False False (toggleAIType ''image'')))
     = [ToolbarButton pencil_icon [SetAiType ''text''] ''Ask AI to write'']"
  using mode_toggle_control [of "''image''" False False False]
  by simp

subsection \<open>The text controls\<close>

text \<open>
  Claim C6. A control that accepts the content (one labelled "Done", or one wired to
  the accept-content command) is rendered if and only if \<open>showRetry\<close> is false, the mode
  is \<open>text\<close>, \<open>contentIsLoaded\<close> is true and the animation is done; it is then the single
  "Done" button, with the check icon, whose click issues the accept-content command.
\<close>

theorem done_control_iff:
  "filter acceptsContent
     (renderedControls (ToolbarControls ty animDone loaded retry (toggleAIType ty)))
     = (if \<not> retry \<and> ty = ''text'' \<and> loaded \<and> animDone
        then [ToolbarButton check_icon [HandleAcceptContent] ''Done''] else [])"
  by (simp add: ToolbarControls_def acceptsContent_def toggleAIType_def)

text \<open>
  Claim C7. When \<open>showRetry\<close> is false, the mode is \<open>text\<close> and \<open>contentIsLoaded\<close> is
  false, the text group holds a "Continue writing" button that requests the \<open>continue\<close>
  variant, followed by a dropdown of exactly three entries, which request the variants
  \<open>summarize\<close>, \<open>titleSummary\<close> and \<open>continue\<close> through the same get-suggestion command
  (the second group then holds the mode toggle).
\<close>

theorem continue_writing_controls:
  "\<not> retry \<Longrightarrow> ty = ''text'' \<Longrightarrow> \<not> loaded \<Longrightarrow>
     ToolbarControls ty animDone loaded retry toggle =
       BlockControls
         [ToolbarGroup
            [ToolbarButton pencil_icon [GetSuggestionFromOpenAI ''continue''] ''Continue writing'',
             ToolbarDropdownMenu ''More''
               [(''Summarize'', [GetSuggestionFromOpenAI ''summarize'']),
                (''Write a summary based on title'', [GetSuggestionFromOpenAI ''titleSummary'']),
                (''Expand on preceding content'', [GetSuggestionFromOpenAI ''continue''])]],
          ToolbarGroup [ToolbarButton image_icon toggle ''Ask AI for an image'']]
     \<and> map controlCommands
          (filter isDropdown (renderedControls (ToolbarControls ty animDone loaded retry toggle)))
        = [[GetSuggestionFromOpenAI ''summarize'', GetSuggestionFromOpenAI ''titleSummary'',
            GetSuggestionFromOpenAI ''continue'']]"
  by (simp add: ToolbarControls_def)

theorem continue_writing_controls_witness:
  "renderedControls (ToolbarControls ''text'' True False False (toggleAIType ''text'')) =
     [ToolbarButton pencil_icon [GetSuggestionFromOpenAI ''continue''] ''Continue writing'',
      ToolbarDropdownMenu ''More''
        [(''Summarize'', [GetSuggestionFromOpenAI ''summarize'']),
         (''Write a summary based on title'', [GetSuggestionFromOpenAI ''titleSummary'']),
         (''Expand on preceding content'', [GetSuggestionFromOpenAI ''continue''])],
      ToolbarButton image_icon [SetAiType ''image''] ''Ask AI for an image'']"
  using continue_writing_controls [of False "''text''" False True "toggleAIType ''text''"]
  by (simp add: toggleAIType_def)

text \<open>
  Claim C10. In text mode with \<open>showRetry\<close> false, \<open>contentIsLoaded\<close> true and the animation
  not yet done, outside the waiting state, the toolbar is rendered and holds one group
  with nothing in it: no Retry, Done, Continue writing, dropdown or mode toggle.
\<close>

theorem empty_toolbar_state:
  "toolbar (AIControl (p\<lparr> aiType := ''text'', showRetry := False, contentIsLoaded := True,
       animationDone := False, isWaitingState := False \<rparr>))
     = Some (BlockControls [ToolbarGroup []])
   \<and> renderedControls (ToolbarControls ''text'' False True False toggle) = []"
  by (simp add: AIControl_def ToolbarControls_def)

subsection \<open>Submitting from the keyboard\<close>

text \<open>
  Claim C9. Pressing Enter without Shift in the prompt input prevents the default and
  issues the get-suggestion command whatever \<open>isWaitingState\<close> is: the key handler does
  not look at it. The submit button, whose click issues the same command, is disabled
  exactly while a request is outstanding. So in every waiting state the button is
  disabled and the keypress still issues the command.
\<close>

theorem enter_submits_regardless_of_waiting:
  "key ev = ''Enter'' \<Longrightarrow> \<not> shiftKey ev \<Longrightarrow>
     textareaOnKeyPress (AIControl p) ev = [PreventDefault, HandleGetSuggestion]
     \<and> textareaOnKeyPress (AIControl (p\<lparr> isWaitingState := True \<rparr>)) ev
         = [PreventDefault, HandleGetSuggestion]
     \<and> buttonDisabled (AIControl (p\<lparr> isWaitingState := True \<rparr>))
     \<and> buttonDisabled (AIControl p) = isWaitingState p
     \<and> buttonOnClick (AIControl p) = [HandleGetSuggestion]"
  by (simp add: AIControl_def handleInputEnter_def)

text \<open>Enter without Shift in a waiting state.\<close>

theorem enter_submits_regardless_of_waiting_witness:
  "textareaOnKeyPress (AIControl \<lparr> aiType = ''text'', animationDone = False, content = [],
       contentIsLoaded = False, isWaitingState = True, loadingImages = False,
       placeholder = ''Ask'', showRetry = False \<rparr>) \<lparr> key = ''Enter'', shiftKey = False \<rparr>
     = [PreventDefault, HandleGetSuggestion]
   \<and> buttonDisabled (AIControl \<lparr> aiType = ''text'', animationDone = False, content = [],
       contentIsLoaded = False, isWaitingState = True, loadingImages = False,
       placeholder = ''Ask'', showRetry = False \<rparr>)"
  using enter_submits_regardless_of_waiting
    [of "\<lparr> key = ''Enter'', shiftKey = False \<rparr>"
        "\<lparr> aiType = ''text'', animationDone = False, content = [],
           contentIsLoaded = False, isWaitingState = True, loadingImages = False,
           placeholder = ''Ask'', showRetry = False \<rparr>"]
  by simp

end
